theory Spec2Isabelle
  imports Complex_Main
begin

section \<open>The shape and text annotation editor (coretk/dialogs/shapemod.py)\<close>

text \<open>
  The dialog of \<^verbatim>\<open>shapemod.py\<close> edits the display attributes of one annotation of the
  topology canvas. The annotation object, its data object and the canvas are shared with
  the rest of the application, so the embedding keeps them in an explicit store:
  annotation objects live in a heap addressed by references, and the two registries of
  the canvas map element identifiers to references. A callback of the dialog is a
  function from the whole world to an outcome: the exception raised (if any) together
  with the world as it is at that moment, since an exception that leaves a Tk callback
  keeps every assignment made before it.
\<close>

subsection \<open>Data\<close>

type_synonym color = string
type_synonym item_id = nat
type_synonym ref = nat

text \<open>
  The members of \<^verbatim>\<open>ImageEnum\<close> the dialog tests for; \<open>MARKER\<close> stands for every other
  member of the enumeration.
\<close>

datatype image_enum = OVAL | RECTANGLE | TEXT | MARKER

text \<open>The elements of a font specification: a Python list that mixes strings and integers.\<close>

datatype py_val = PyStr string | PyInt int

datatype error = KeyError | TypeError | AttributeError

text \<open>
  \<^verbatim>\<open>shape.shape_data\<close>. A colour is absent (\<open>None\<close>) when the value stored is Python's
  \<^verbatim>\<open>None\<close>. The data object is taken to belong to one annotation only.
\<close>

record annotation_data =
  data_text :: string
  font :: string
  font_size :: int
  text_color :: "color option"
  fill_color :: "color option"
  border_color :: "color option"
  border_width :: int
  bold :: int
  italic :: int
  underline :: int

text \<open>
  The annotation object handed to the dialog; only the attributes the dialog reads or
  writes. Coordinates are rationals: the toolkit reports pixel integers, and the
  half-integers computed from them are exact in Python's floats.
\<close>

record shape =
  shape_id :: item_id
  x0 :: rat
  y0 :: rat
  text_id :: "item_id option"
  created :: bool
  shape_data :: annotation_data

text \<open>
  The options of a canvas element as the dialog passes them. An option that is \<open>None\<close>
  was never configured (the toolkit's default applies): tkinter drops every keyword
  argument whose value is \<^verbatim>\<open>None\<close> before it calls Tk.
\<close>

record item_opts =
  o_text :: "string option"
  o_fill :: "color option"
  o_font :: "py_val list option"
  o_tags :: "string option"
  o_dash :: "string option"
  o_outline :: "color option"
  o_width :: "int option"

datatype item_kind = OvalItem | RectangleItem | TextItem

record item =
  kind :: item_kind
  coords :: "rat list"
  opts :: item_opts

text \<open>
  The canvas. Tk numbers the elements of a canvas 1, 2, 3, ... in the order of their
  creation and never uses a number again: slot \<open>i - 1\<close> of \<open>slots\<close> holds element \<open>i\<close>,
  or \<open>None\<close> once it is deleted. \<open>shapes\<close> and \<open>texts\<close> are the registries
  \<^verbatim>\<open>canvas.shapes\<close> and \<^verbatim>\<open>canvas.texts\<close>, dictionaries from element identifiers to
  annotation objects.
\<close>

record canvas_graph =
  slots :: "item option list"
  shapes :: "item_id \<rightharpoonup> ref"
  texts :: "item_id \<rightharpoonup> ref"

text \<open>A colour swatch of the form: a label with a text and a background.\<close>

record label =
  lbl_text :: "color option"
  lbl_background :: "color option"

text \<open>
  The dialog object. The fields \<open>self_shape_text\<close> ... \<open>self_underline\<close> are the edit
  session (Tk variables and plain attributes of \<^verbatim>\<open>self\<close>). \<open>self_id\<close>, \<open>self_fill\<close> and
  \<open>self_border\<close> are \<open>None\<close> while the attribute does not exist, which is the case in
  the text variant. \<open>is_open\<close> is the window of the base class \<^verbatim>\<open>Dialog\<close>.
\<close>

record dialog =
  annotation_type :: image_enum
  self_id :: "item_id option"
  self_shape :: ref
  self_shape_text :: string
  self_font :: string
  self_font_size :: int
  self_text_color :: "color option"
  self_fill_color :: "color option"
  self_border_color :: "color option"
  self_border_width :: int
  self_bold :: int
  self_italic :: int
  self_underline :: int
  self_fill :: "label option"
  self_border :: "label option"
  is_open :: bool

record world =
  dlg :: dialog
  heap :: "ref \<Rightarrow> shape"
  canvas :: canvas_graph

type_synonym outcome = "error option \<times> world"

subsection \<open>The canvas operations the dialog calls\<close>

definition item_at :: "canvas_graph \<Rightarrow> item_id \<Rightarrow> item option" where
  "item_at c i = (if 1 \<le> i \<and> i \<le> length (slots c) then slots c ! (i - 1) else None)"

text \<open>An option passed as \<open>None\<close> is dropped, any other value replaces the old one.\<close>

definition pass_opt :: "'a option \<Rightarrow> 'a option \<Rightarrow> 'a option" where
  "pass_opt new old = (case new of None \<Rightarrow> old | Some v \<Rightarrow> Some v)"

definition apply_opts :: "item_opts \<Rightarrow> item \<Rightarrow> item" where
  "apply_opts kw it =
     it\<lparr>opts := \<lparr>o_text = pass_opt (o_text kw) (o_text (opts it)),
                  o_fill = pass_opt (o_fill kw) (o_fill (opts it)),
                  o_font = pass_opt (o_font kw) (o_font (opts it)),
                  o_tags = pass_opt (o_tags kw) (o_tags (opts it)),
                  o_dash = pass_opt (o_dash kw) (o_dash (opts it)),
                  o_outline = pass_opt (o_outline kw) (o_outline (opts it)),
                  o_width = pass_opt (o_width kw) (o_width (opts it))\<rparr>\<rparr>"

definition no_opts :: item_opts where
  "no_opts = \<lparr>o_text = None, o_fill = None, o_font = None, o_tags = None,
              o_dash = None, o_outline = None, o_width = None\<rparr>"

text \<open>
  \<^verbatim>\<open>canvas.create_text(x, y, **kw)\<close>: a new text element at \<open>(x, y)\<close>, under the next
  identifier, which is returned.
\<close>

definition create_text :: "canvas_graph \<Rightarrow> rat \<Rightarrow> rat \<Rightarrow> item_opts \<Rightarrow> item_id \<times> canvas_graph" where
  "create_text c x y kw =
     (let tid = length (slots c) + 1;
          it = apply_opts kw \<lparr>kind = TextItem, coords = [x, y], opts = no_opts\<rparr>
      in (tid, c\<lparr>slots := slots c @ [Some it]\<rparr>))"

text \<open>\<^verbatim>\<open>canvas.itemconfig(i, **kw)\<close>: nothing happens when no element has the identifier.\<close>

definition itemconfig :: "canvas_graph \<Rightarrow> item_id \<Rightarrow> item_opts \<Rightarrow> canvas_graph" where
  "itemconfig c i kw =
     (case item_at c i of
        None \<Rightarrow> c
      | Some it \<Rightarrow> c\<lparr>slots := (slots c)[i - 1 := Some (apply_opts kw it)]\<rparr>)"

text \<open>\<^verbatim>\<open>canvas.delete(i)\<close>: nothing happens when no element has the identifier.\<close>

definition canvas_delete :: "canvas_graph \<Rightarrow> item_id \<Rightarrow> canvas_graph" where
  "canvas_delete c i =
     (case item_at c i of
        None \<Rightarrow> c
      | Some it \<Rightarrow> c\<lparr>slots := (slots c)[i - 1 := None]\<rparr>)"

text \<open>
  \<^verbatim>\<open>canvas.bbox(i)\<close>: \<^verbatim>\<open>None\<close> when no element has the identifier, else what the
  toolkit computes from the element, four pixel integers or \<^verbatim>\<open>None\<close>. The toolkit's
  geometry is the parameter \<open>tk_bbox\<close>.
\<close>

definition canvas_bbox ::
  "(item \<Rightarrow> (int \<times> int \<times> int \<times> int) option) \<Rightarrow> canvas_graph \<Rightarrow> item_id
     \<Rightarrow> (int \<times> int \<times> int \<times> int) option" where
  "canvas_bbox tk_bbox c i = (case item_at c i of None \<Rightarrow> None | Some it \<Rightarrow> tk_bbox it)"

text \<open>\<^verbatim>\<open>label.config(background=..., text=...)\<close>, with the same rule for \<^verbatim>\<open>None\<close>.\<close>

definition label_config :: "label \<Rightarrow> color option \<Rightarrow> color option \<Rightarrow> label" where
  "label_config l background txt =
     \<lparr>lbl_text = pass_opt txt (lbl_text l),
      lbl_background = pass_opt background (lbl_background l)\<rparr>"

subsection \<open>The dialog\<close>

definition is_shape :: "dialog \<Rightarrow> bool" where
  "is_shape d = (annotation_type d = OVAL \<or> annotation_type d = RECTANGLE)"

definition is_text :: "dialog \<Rightarrow> bool" where
  "is_text d = (annotation_type d = TEXT)"

text \<open>
  \<^verbatim>\<open>__init__\<close> followed by \<^verbatim>\<open>draw\<close>: the session is read from the annotation's data; the
  shape variant takes the annotation's identifier and gets the two swatches (the border
  swatch shows the border colour as text on the fill colour as background).
\<close>

definition ShapeDialog_init :: "image_enum \<Rightarrow> ref \<Rightarrow> (ref \<Rightarrow> shape) \<Rightarrow> canvas_graph \<Rightarrow> world" where
  "ShapeDialog_init ann r h c =
     (let data = shape_data (h r);
          shp = (ann = OVAL \<or> ann = RECTANGLE)
      in \<lparr>dlg = \<lparr>annotation_type = ann,
                 self_id = (if shp then Some (shape_id (h r)) else None),
                 self_shape = r,
                 self_shape_text = data_text data,
                 self_font = font data,
                 self_font_size = font_size data,
                 self_text_color = text_color data,
                 self_fill_color = fill_color data,
                 self_border_color = border_color data,
                 self_border_width = border_width data,
                 self_bold = bold data,
                 self_italic = italic data,
                 self_underline = underline data,
                 self_fill = (if shp then Some \<lparr>lbl_text = fill_color data,
                                                  lbl_background = fill_color data\<rparr>
                              else None),
                 self_border = (if shp then Some \<lparr>lbl_text = border_color data,
                                                    lbl_background = fill_color data\<rparr>
                                else None),
                 is_open = True\<rparr>,
          heap = h, canvas = c\<rparr>)"

text \<open>
  The colour prompts. \<open>answer\<close> is the second component of what
  \<^verbatim>\<open>colorchooser.askcolor\<close> returns: the colour chosen, or \<open>None\<close> when the user cancels
  the prompt. The colour the prompt opens on does not reach the state.
\<close>

definition choose_text_color :: "color option \<Rightarrow> world \<Rightarrow> outcome" where
  "choose_text_color answer w = (None, w\<lparr>dlg := (dlg w)\<lparr>self_text_color := answer\<rparr>\<rparr>)"

definition choose_fill_color :: "color option \<Rightarrow> world \<Rightarrow> outcome" where
  "choose_fill_color answer w =
     (let w1 = w\<lparr>dlg := (dlg w)\<lparr>self_fill_color := answer\<rparr>\<rparr>
      in case self_fill (dlg w1) of
           None \<Rightarrow> (Some AttributeError, w1)
         | Some l \<Rightarrow> (None, w1\<lparr>dlg := (dlg w1)\<lparr>self_fill := Some (label_config l answer answer)\<rparr>\<rparr>))"

definition choose_border_color :: "color option \<Rightarrow> world \<Rightarrow> outcome" where
  "choose_border_color answer w =
     (let w1 = w\<lparr>dlg := (dlg w)\<lparr>self_border_color := answer\<rparr>\<rparr>
      in case self_border (dlg w1) of
           None \<Rightarrow> (Some AttributeError, w1)
         | Some l \<Rightarrow> (None, w1\<lparr>dlg := (dlg w1)\<lparr>self_border := Some (label_config l answer answer)\<rparr>\<rparr>))"

text \<open>\<^verbatim>\<open>dict.pop(key)\<close> without a default.\<close>

definition pop :: "('k \<rightharpoonup> 'v) \<Rightarrow> 'k \<Rightarrow> error + ('k \<rightharpoonup> 'v)" where
  "pop m k = (case m k of None \<Rightarrow> Inl KeyError | Some v \<Rightarrow> Inr (m(k := None)))"

text \<open>
  Modelled from the spec: \<^verbatim>\<open>Dialog.destroy\<close> of the base class, which is not part of the
  sources at hand; it closes the editor.
\<close>

definition destroy :: "world \<Rightarrow> world" where
  "destroy w = w\<lparr>dlg := (dlg w)\<lparr>is_open := False\<rparr>\<rparr>"

text \<open>
  The Cancel button. The flag is read from the object the shapes registry holds under
  the editor's identifier; a missing entry is a \<^verbatim>\<open>KeyError\<close>.
\<close>

definition cancel :: "world \<Rightarrow> outcome" where
  "cancel w =
     (if is_shape (dlg w) then
        (case self_id (dlg w) of
           None \<Rightarrow> (Some AttributeError, w)
         | Some i \<Rightarrow>
            (case shapes (canvas w) i of
               None \<Rightarrow> (Some KeyError, w)
             | Some r \<Rightarrow>
                 if \<not> created (heap w r) then
                   (let w1 = w\<lparr>canvas := canvas_delete (canvas w) i\<rparr>
                    in case pop (shapes (canvas w1)) i of
                         Inl e \<Rightarrow> (Some e, w1)
                       | Inr m \<Rightarrow> (None, destroy (w1\<lparr>canvas := (canvas w1)\<lparr>shapes := m\<rparr>\<rparr>)))
                 else (None, destroy w)))
      else (None, destroy w))"

text \<open>
  The values of the Tk integer variables are integers, so the coercions \<^verbatim>\<open>int(...)\<close> of
  the source are the identity.
\<close>

definition make_font :: "dialog \<Rightarrow> py_val list" where
  "make_font d =
     (let size = self_font_size d;
          text_font = [PyStr (self_font d), PyInt size];
          text_font = (if self_bold d = 1 then text_font @ [PyStr ''bold''] else text_font);
          text_font = (if self_italic d = 1 then text_font @ [PyStr ''italic''] else text_font);
          text_font = (if self_underline d = 1 then text_font @ [PyStr ''underline''] else text_font)
      in text_font)"

definition save_text :: "world \<Rightarrow> world" where
  "save_text w =
     (let d = dlg w; r = self_shape d; sh = heap w r; data = shape_data sh
      in w\<lparr>heap := (heap w)(r := sh\<lparr>shape_data :=
            data\<lparr>data_text := self_shape_text d,
                 font := self_font d,
                 font_size := self_font_size d,
                 text_color := self_text_color d,
                 bold := self_bold d,
                 italic := self_italic d,
                 underline := self_underline d\<rparr>\<rparr>)\<rparr>)"

definition save_shape :: "world \<Rightarrow> world" where
  "save_shape w =
     (let d = dlg w; r = self_shape d; sh = heap w r; data = shape_data sh
      in w\<lparr>heap := (heap w)(r := sh\<lparr>shape_data :=
            data\<lparr>fill_color := self_fill_color d,
                 border_color := self_border_color d,
                 border_width := self_border_width d\<rparr>\<rparr>)\<rparr>)"

definition text_opts :: "dialog \<Rightarrow> string option \<Rightarrow> item_opts" where
  "text_opts d tags =
     no_opts\<lparr>o_text := Some (self_shape_text d), o_fill := self_text_color d,
             o_font := Some (make_font d), o_tags := tags\<rparr>"

text \<open>
  \<^verbatim>\<open>add_text\<close>; the registry it prints to the standard output is not part of the state.
\<close>

definition add_text :: "world \<Rightarrow> outcome" where
  "add_text w =
     (let d = dlg w; r = self_shape d; sh = heap w r;
          x = x0 sh; y = y0 sh;
          w1 = (case text_id sh of
                  None \<Rightarrow>
                    (let (tid, c1) = create_text (canvas w) x y (text_opts d (Some ''text''))
                     in w\<lparr>dlg := d\<lparr>self_id := Some tid\<rparr>,
                          heap := (heap w)(r := sh\<lparr>text_id := Some tid, shape_id := tid,
                                                    created := True\<rparr>),
                          canvas := c1\<lparr>texts := (texts c1)(tid \<mapsto> r)\<rparr>\<rparr>)
                | Some t \<Rightarrow> w)
      in (None, save_text w1))"

definition shape_opts :: "dialog \<Rightarrow> item_opts" where
  "shape_opts d =
     no_opts\<lparr>o_fill := self_fill_color d, o_dash := Some '''',
             o_outline := self_border_color d, o_width := Some (self_border_width d)\<rparr>"

text \<open>
  \<^verbatim>\<open>add_shape\<close>. Unpacking the bounding box raises a \<^verbatim>\<open>TypeError\<close> when \<^verbatim>\<open>bbox\<close>
  returns \<^verbatim>\<open>None\<close>; the shape is re-rendered by then and nothing is saved.
\<close>

definition add_shape :: "(item \<Rightarrow> (int \<times> int \<times> int \<times> int) option) \<Rightarrow> world \<Rightarrow> outcome" where
  "add_shape tk_bbox w =
     (let d = dlg w in
      case self_id d of
        None \<Rightarrow> (Some AttributeError, w)
      | Some i \<Rightarrow>
         (let w1 = w\<lparr>canvas := itemconfig (canvas w) i (shape_opts d)\<rparr>;
              size = self_font_size d
          in case canvas_bbox tk_bbox (canvas w1) i of
               None \<Rightarrow> (Some TypeError, w1)
             | Some (bx0, by0, bx1, by1) \<Rightarrow>
                (let y = of_int by0 + (3 / 2) * of_int size;
                     x = of_int (bx0 + bx1) / 2;
                     r = self_shape d; sh = heap w1 r;
                     w2 = (case text_id sh of
                             None \<Rightarrow>
                               (let (tid, c2) = create_text (canvas w1) x y
                                                  (text_opts d (Some ''shapetext''))
                                in w1\<lparr>heap := (heap w1)(r := sh\<lparr>text_id := Some tid,
                                                                 created := True\<rparr>),
                                      canvas := c2\<rparr>)
                           | Some t \<Rightarrow>
                               w1\<lparr>canvas := itemconfig (canvas w1) t (text_opts d None)\<rparr>)
                 in (None, save_shape (save_text w2)))))"

definition click_add :: "(item \<Rightarrow> (int \<times> int \<times> int \<times> int) option) \<Rightarrow> world \<Rightarrow> outcome" where
  "click_add tk_bbox w =
     (if is_shape (dlg w) then
        (case add_shape tk_bbox w of
           (None, w1) \<Rightarrow> (None, destroy w1)
         | (Some e, w1) \<Rightarrow> (Some e, w1))
      else if is_text (dlg w) then
        (case add_text w of
           (None, w1) \<Rightarrow> (None, destroy w1)
         | (Some e, w1) \<Rightarrow> (Some e, w1))
      else (None, destroy w))"

subsection \<open>Editing the form\<close>

text \<open>
  What the user can do to an open form before the Add or Cancel button: type into the
  entry, select in a combobox, toggle a checkbutton (each writes the Tk variable bound to
  the widget) and answer one of the three colour prompts. Tk reports an exception that
  leaves a callback and goes on with the next event.
\<close>

datatype edit =
    Type_text string
  | Select_font string
  | Select_font_size int
  | Select_border_width int
  | Toggle_bold int
  | Toggle_italic int
  | Toggle_underline int
  | Choose_text_color "color option"
  | Choose_fill_color "color option"
  | Choose_border_color "color option"

fun apply_edit :: "edit \<Rightarrow> world \<Rightarrow> outcome" where
  "apply_edit (Type_text s) w = (None, w\<lparr>dlg := (dlg w)\<lparr>self_shape_text := s\<rparr>\<rparr>)"
| "apply_edit (Select_font f) w = (None, w\<lparr>dlg := (dlg w)\<lparr>self_font := f\<rparr>\<rparr>)"
| "apply_edit (Select_font_size n) w = (None, w\<lparr>dlg := (dlg w)\<lparr>self_font_size := n\<rparr>\<rparr>)"
| "apply_edit (Select_border_width n) w = (None, w\<lparr>dlg := (dlg w)\<lparr>self_border_width := n\<rparr>\<rparr>)"
| "apply_edit (Toggle_bold b) w = (None, w\<lparr>dlg := (dlg w)\<lparr>self_bold := b\<rparr>\<rparr>)"
| "apply_edit (Toggle_italic b) w = (None, w\<lparr>dlg := (dlg w)\<lparr>self_italic := b\<rparr>\<rparr>)"
| "apply_edit (Toggle_underline b) w = (None, w\<lparr>dlg := (dlg w)\<lparr>self_underline := b\<rparr>\<rparr>)"
| "apply_edit (Choose_text_color a) w = choose_text_color a w"
| "apply_edit (Choose_fill_color a) w = choose_fill_color a w"
| "apply_edit (Choose_border_color a) w = choose_border_color a w"

fun run_edits :: "edit list \<Rightarrow> world \<Rightarrow> world" where
  "run_edits [] w = w"
| "run_edits (e # es) w = run_edits es (snd (apply_edit e w))"

subsection \<open>The state of an annotation\<close>

text \<open>
  An annotation has a label or text element only once it has been committed: the dialog
  writes \<open>text_id\<close> in two places, \<open>add_text\<close> and \<open>add_shape\<close>, each time together
  with \<open>created = True\<close>, and never resets the flag.
\<close>

definition committed_if_labelled :: "shape \<Rightarrow> bool" where
  "committed_if_labelled sh = (text_id sh = None \<or> created sh)"

subsection \<open>The font descriptor of the specification\<close>

text \<open>
  The font descriptor in the words of the specification, to be compared with
  \<open>make_font\<close>: the family, the size, then the modifiers bold, italic, underline in this
  fixed order, each present exactly when its flag is 1.
\<close>

definition font_descriptor :: "string \<Rightarrow> int \<Rightarrow> int \<Rightarrow> int \<Rightarrow> int \<Rightarrow> py_val list" where
  "font_descriptor family sz b i u =
     PyStr family # PyInt sz #
       map (\<lambda>(flag, name). PyStr name)
         (filter (\<lambda>(flag, name). flag = 1) [(b, ''bold''), (i, ''italic''), (u, ''underline'')])"

subsection \<open>Example editors\<close>

text \<open>
  A canvas with one oval (element 1) drawn from (10, 20) to (50, 60), registered as the
  placeholder of the annotation at reference 0, and a toolkit that reports that rectangle
  as the bounding box of every element that is not a text.
\<close>

definition ex_data :: annotation_data where
  "ex_data = \<lparr>data_text = [], font = ''Arial'', font_size = 12,
              text_color = Some ''#000000'', fill_color = Some ''#CFCFFF'',
              border_color = Some ''#000000'', border_width = 1,
              bold = 0, italic = 0, underline = 0\<rparr>"

definition ex_annotation :: shape where
  "ex_annotation = \<lparr>shape_id = 1, x0 = 10, y0 = 20, text_id = None, created = False,
                    shape_data = ex_data\<rparr>"

definition ex_oval :: item where
  "ex_oval = \<lparr>kind = OvalItem, coords = [10, 20, 50, 60],
              opts = no_opts\<lparr>o_dash := Some ''-''\<rparr>\<rparr>"

definition ex_label :: item where
  "ex_label = \<lparr>kind = TextItem, coords = [30, 38],
               opts = no_opts\<lparr>o_text := Some ''old'', o_fill := Some ''#000000''\<rparr>\<rparr>"

definition ex_canvas :: canvas_graph where
  "ex_canvas = \<lparr>slots = [Some ex_oval], shapes = [1 \<mapsto> 0], texts = Map.empty\<rparr>"

definition ex_bbox :: "item \<Rightarrow> (int \<times> int \<times> int \<times> int) option" where
  "ex_bbox it = (if kind it = TextItem then None else Some (10, 20, 50, 60))"

text \<open>
  The editor opened on the fresh oval, after the user has typed a label, picked size 10,
  ticked Bold and chosen a fill colour.
\<close>

definition ex_shape_editor :: world where
  "ex_shape_editor =
     run_edits [Type_text ''lan'', Select_font_size 10, Toggle_bold 1,
                Choose_fill_color (Some ''#ff0000'')]
       (ShapeDialog_init OVAL 0 (\<lambda>r. ex_annotation) ex_canvas)"

text \<open>
  An editor opened again on a committed oval, whose label is element 2, after the user
  has typed a new label and ticked Italic.
\<close>

definition ex_labelled_editor :: world where
  "ex_labelled_editor =
     run_edits [Type_text ''lan'', Toggle_italic 1]
       (ShapeDialog_init OVAL 0 (\<lambda>r. ex_annotation\<lparr>text_id := Some 2, created := True\<rparr>)
          (ex_canvas\<lparr>slots := [Some ex_oval, Some ex_label]\<rparr>))"

text \<open>
  A text editor opened for a text annotation at (10, 20) that has no canvas element yet,
  and one opened again for a text annotation whose element is number 2.
\<close>

definition ex_text_editor :: world where
  "ex_text_editor =
     run_edits [Type_text ''note'', Select_font_size 14, Toggle_underline 1,
                Choose_text_color (Some ''#00ff00'')]
       (ShapeDialog_init TEXT 0 (\<lambda>r. ex_annotation\<lparr>shape_id := 0\<rparr>) ex_canvas)"

definition ex_text_reeditor :: world where
  "ex_text_reeditor =
     run_edits [Type_text ''note'', Select_font_size 14, Toggle_underline 1,
                Choose_text_color (Some ''#00ff00'')]
       (ShapeDialog_init TEXT 0
          (\<lambda>r. ex_annotation\<lparr>shape_id := 2, text_id := Some 2, created := True\<rparr>)
          \<lparr>slots = [Some ex_oval, Some ex_label], shapes = [1 \<mapsto> 1], texts = [2 \<mapsto> 0]\<rparr>)"

section \<open>Properties\<close>

subsection \<open>Facts about the canvas operations\<close>

lemma item_at_fresh: "item_at c (Suc (length (slots c))) = None"
  by (simp add: item_at_def)

lemma item_at_append_new:
  "length xs = n \<Longrightarrow> item_at (c\<lparr>slots := xs @ [x]\<rparr>) (Suc n) = x"
  by (auto simp: item_at_def)

lemma item_at_shapes_update: "item_at (c\<lparr>shapes := m\<rparr>) i = item_at c i"
  by (simp add: item_at_def)

lemma pass_opt_None: "pass_opt x None = x"
  by (cases x) (simp_all add: pass_opt_def)

lemma apply_opts_no_opts:
  "apply_opts kw \<lparr>kind = k, coords = cs, opts = no_opts\<rparr> = \<lparr>kind = k, coords = cs, opts = kw\<rparr>"
  by (simp add: apply_opts_def no_opts_def pass_opt_None)

lemma length_slots_itemconfig: "length (slots (itemconfig c i kw)) = length (slots c)"
  by (simp add: itemconfig_def split: option.splits)

lemma item_at_canvas_delete: "item_at (canvas_delete c i) i = None"
  by (auto simp: canvas_delete_def item_at_def split: option.splits)

lemma shapes_canvas_delete: "shapes (canvas_delete c i) = shapes c"
  by (simp add: canvas_delete_def split: option.splits)

lemma label_config_None: "label_config l None None = l"
  by (simp add: label_config_def pass_opt_def)

subsection \<open>Editing never reaches the annotation\<close>

lemma heap_apply_edit: "heap (snd (apply_edit e w)) = heap w"
  by (cases e)
    (simp_all add: choose_text_color_def choose_fill_color_def choose_border_color_def
      Let_def split: option.splits)

lemma canvas_apply_edit: "canvas (snd (apply_edit e w)) = canvas w"
  by (cases e)
    (simp_all add: choose_text_color_def choose_fill_color_def choose_border_color_def
      Let_def split: option.splits)

lemma heap_run_edits: "heap (run_edits es w) = heap w"
  by (induction es arbitrary: w) (simp_all add: heap_apply_edit)

lemma canvas_run_edits: "canvas (run_edits es w) = canvas w"
  by (induction es arbitrary: w) (simp_all add: canvas_apply_edit)

subsection \<open>The example editors, evaluated\<close>

lemmas init_defs = ShapeDialog_init_def choose_text_color_def choose_fill_color_def
  choose_border_color_def label_config_def pass_opt_def Let_def

lemma ex_shape_editor_simps:
  "dlg ex_shape_editor =
     \<lparr>annotation_type = OVAL, self_id = Some 1, self_shape = 0,
      self_shape_text = ''lan'', self_font = ''Arial'', self_font_size = 10,
      self_text_color = Some ''#000000'', self_fill_color = Some ''#ff0000'',
      self_border_color = Some ''#000000'', self_border_width = 1,
      self_bold = 1, self_italic = 0, self_underline = 0,
      self_fill = Some \<lparr>lbl_text = Some ''#ff0000'', lbl_background = Some ''#ff0000''\<rparr>,
      self_border = Some \<lparr>lbl_text = Some ''#000000'', lbl_background = Some ''#CFCFFF''\<rparr>,
      is_open = True\<rparr>"
  "heap ex_shape_editor = (\<lambda>r. ex_annotation)"
  "canvas ex_shape_editor = ex_canvas"
  by (simp_all add: ex_shape_editor_def heap_run_edits canvas_run_edits)
    (simp_all add: init_defs ex_annotation_def ex_data_def)

lemma ex_labelled_editor_simps:
  "dlg ex_labelled_editor =
     \<lparr>annotation_type = OVAL, self_id = Some 1, self_shape = 0,
      self_shape_text = ''lan'', self_font = ''Arial'', self_font_size = 12,
      self_text_color = Some ''#000000'', self_fill_color = Some ''#CFCFFF'',
      self_border_color = Some ''#000000'', self_border_width = 1,
      self_bold = 0, self_italic = 1, self_underline = 0,
      self_fill = Some \<lparr>lbl_text = Some ''#CFCFFF'', lbl_background = Some ''#CFCFFF''\<rparr>,
      self_border = Some \<lparr>lbl_text = Some ''#000000'', lbl_background = Some ''#CFCFFF''\<rparr>,
      is_open = True\<rparr>"
  "heap ex_labelled_editor = (\<lambda>r. ex_annotation\<lparr>text_id := Some 2, created := True\<rparr>)"
  "canvas ex_labelled_editor = ex_canvas\<lparr>slots := [Some ex_oval, Some ex_label]\<rparr>"
  by (simp_all add: ex_labelled_editor_def heap_run_edits canvas_run_edits)
    (simp_all add: init_defs ex_annotation_def ex_data_def)

lemma ex_text_editor_simps:
  "dlg ex_text_editor =
     \<lparr>annotation_type = TEXT, self_id = None, self_shape = 0,
      self_shape_text = ''note'', self_font = ''Arial'', self_font_size = 14,
      self_text_color = Some ''#00ff00'', self_fill_color = Some ''#CFCFFF'',
      self_border_color = Some ''#000000'', self_border_width = 1,
      self_bold = 0, self_italic = 0, self_underline = 1,
      self_fill = None, self_border = None, is_open = True\<rparr>"
  "heap ex_text_editor = (\<lambda>r. ex_annotation\<lparr>shape_id := 0\<rparr>)"
  "canvas ex_text_editor = ex_canvas"
  by (simp_all add: ex_text_editor_def heap_run_edits canvas_run_edits)
    (simp_all add: init_defs ex_annotation_def ex_data_def)

lemma ex_text_reeditor_simps:
  "dlg ex_text_reeditor = dlg ex_text_editor"
  "heap ex_text_reeditor =
     (\<lambda>r. ex_annotation\<lparr>shape_id := 2, text_id := Some 2, created := True\<rparr>)"
  "canvas ex_text_reeditor =
     \<lparr>slots = [Some ex_oval, Some ex_label], shapes = [1 \<mapsto> 1], texts = [2 \<mapsto> 0]\<rparr>"
  by (simp_all add: ex_text_reeditor_def ex_text_editor_def heap_run_edits canvas_run_edits)
    (simp_all add: init_defs ex_annotation_def ex_data_def)

lemma ex_bbox_re_rendered:
  "canvas_bbox ex_bbox (itemconfig ex_canvas (Suc 0) kw) (Suc 0) = Some (10, 20, 50, 60)"
  by (simp add: canvas_bbox_def itemconfig_def item_at_def ex_canvas_def ex_bbox_def
      apply_opts_def ex_oval_def)

lemma ex_bbox_re_rendered2:
  "canvas_bbox ex_bbox
     (itemconfig (ex_canvas\<lparr>slots := [Some ex_oval, Some ex_label]\<rparr>) (Suc 0) kw) (Suc 0)
     = Some (10, 20, 50, 60)"
  by (simp add: canvas_bbox_def itemconfig_def item_at_def ex_canvas_def ex_bbox_def
      apply_opts_def ex_oval_def)

subsection \<open>The dialog keeps the state of an annotation\<close>

lemma heap_ShapeDialog_init:
  "heap (ShapeDialog_init ann r h c) = h"
  by (simp add: ShapeDialog_init_def Let_def)

lemma committed_if_labelled_save_text:
  "committed_if_labelled (heap (save_text w) r) = committed_if_labelled (heap w r)"
  by (simp add: save_text_def committed_if_labelled_def Let_def)

lemma committed_if_labelled_save_shape:
  "committed_if_labelled (heap (save_shape w) r) = committed_if_labelled (heap w r)"
  by (simp add: save_shape_def committed_if_labelled_def Let_def)

lemma committed_if_labelled_add_text:
  "committed_if_labelled (heap w r) \<Longrightarrow> committed_if_labelled (heap (snd (add_text w)) r)"
  by (simp add: add_text_def committed_if_labelled_save_text Let_def
      split: option.splits prod.splits)
    (simp add: committed_if_labelled_def)

lemma committed_if_labelled_add_shape:
  "committed_if_labelled (heap w r) \<Longrightarrow>
   committed_if_labelled (heap (snd (add_shape tk_bbox w)) r)"
  by (simp add: add_shape_def committed_if_labelled_save_text committed_if_labelled_save_shape
      Let_def split: option.splits prod.splits)
    (simp add: committed_if_labelled_def)

lemma heap_destroy: "heap (destroy w) = heap w"
  by (simp add: destroy_def)

lemma committed_if_labelled_click_add:
  assumes "committed_if_labelled (heap w r)"
  shows "committed_if_labelled (heap (snd (click_add tk_bbox w)) r)"
proof -
  have s: "committed_if_labelled (heap (snd (add_shape tk_bbox w)) r)"
    using assms by (rule committed_if_labelled_add_shape)
  have t: "committed_if_labelled (heap (snd (add_text w)) r)"
    using assms by (rule committed_if_labelled_add_text)
  show ?thesis
    using s t assms
    by (cases "add_shape tk_bbox w"; cases "add_text w")
      (auto simp add: click_add_def heap_destroy split: option.splits)
qed

lemma heap_cancel: "heap (snd (cancel w)) = heap w"
  by (simp add: cancel_def pop_def destroy_def Let_def split: option.splits)

subsection \<open>Committing a shape editor\<close>

text \<open>
  Claim C1. For every shape editor and every state of the edit session, the Add button
  sets the annotation's \<open>created\<close> flag and writes all ten fields of the annotation's
  data (text, font family, font size, bold, italic, underline, text colour, fill colour,
  border colour, border width) with exactly the values of the session. The editor is one
  the code can be in: it has its identifier, the shape element on the canvas has a
  bounding box, so that the callback runs to its end, and the annotation has a label only
  if it was committed before (\<open>committed_if_labelled\<close>, which the lemmas above show the
  dialog to keep).
\<close>

theorem commit_shape_created_and_persisted:
  assumes "is_shape (dlg w)"
    and "self_id (dlg w) = Some i"
    and "canvas_bbox tk_bbox (itemconfig (canvas w) i (shape_opts (dlg w))) i = Some bb"
    and "committed_if_labelled (heap w (self_shape (dlg w)))"
  shows "fst (click_add tk_bbox w) = None \<and>
    created (heap (snd (click_add tk_bbox w)) (self_shape (dlg w))) \<and>
    shape_data (heap (snd (click_add tk_bbox w)) (self_shape (dlg w))) =
      \<lparr>data_text = self_shape_text (dlg w), font = self_font (dlg w),
       font_size = self_font_size (dlg w), text_color = self_text_color (dlg w),
       fill_color = self_fill_color (dlg w), border_color = self_border_color (dlg w),
       border_width = self_border_width (dlg w), bold = self_bold (dlg w),
       italic = self_italic (dlg w), underline = self_underline (dlg w)\<rparr>"
  using assms
  by (cases bb)
    (auto simp add: click_add_def add_shape_def save_text_def save_shape_def destroy_def Let_def
      create_text_def committed_if_labelled_def split: option.splits prod.splits)

theorem commit_shape_created_and_persisted_witness:
  "(is_shape (dlg ex_shape_editor) \<and> self_id (dlg ex_shape_editor) = Some 1 \<and>
    canvas_bbox ex_bbox
      (itemconfig (canvas ex_shape_editor) 1 (shape_opts (dlg ex_shape_editor))) 1
      = Some (10, 20, 50, 60) \<and>
    committed_if_labelled (heap ex_shape_editor (self_shape (dlg ex_shape_editor))) \<and>
    \<not> created (heap ex_shape_editor 0)) \<and>
   fst (click_add ex_bbox ex_shape_editor) = None \<and>
   created (heap (snd (click_add ex_bbox ex_shape_editor)) 0) \<and>
   shape_data (heap (snd (click_add ex_bbox ex_shape_editor)) 0) =
     \<lparr>data_text = ''lan'', font = ''Arial'', font_size = 10, text_color = Some ''#000000'',
      fill_color = Some ''#ff0000'', border_color = Some ''#000000'', border_width = 1,
      bold = 1, italic = 0, underline = 0\<rparr> \<and>
   (is_shape (dlg ex_labelled_editor) \<and> self_id (dlg ex_labelled_editor) = Some 1 \<and>
    canvas_bbox ex_bbox
      (itemconfig (canvas ex_labelled_editor) 1 (shape_opts (dlg ex_labelled_editor))) 1
      = Some (10, 20, 50, 60) \<and>
    committed_if_labelled (heap ex_labelled_editor (self_shape (dlg ex_labelled_editor))) \<and>
    text_id (heap ex_labelled_editor 0) = Some 2) \<and>
   fst (click_add ex_bbox ex_labelled_editor) = None \<and>
   created (heap (snd (click_add ex_bbox ex_labelled_editor)) 0) \<and>
   shape_data (heap (snd (click_add ex_bbox ex_labelled_editor)) 0) =
     \<lparr>data_text = ''lan'', font = ''Arial'', font_size = 12, text_color = Some ''#000000'',
      fill_color = Some ''#CFCFFF'', border_color = Some ''#000000'', border_width = 1,
      bold = 0, italic = 1, underline = 0\<rparr>"
proof -
  have a1: "is_shape (dlg ex_shape_editor)"
    by (simp add: ex_shape_editor_simps is_shape_def)
  have a2: "self_id (dlg ex_shape_editor) = Some 1"
    by (simp add: ex_shape_editor_simps)
  have a3: "canvas_bbox ex_bbox
      (itemconfig (canvas ex_shape_editor) 1 (shape_opts (dlg ex_shape_editor))) 1
      = Some (10, 20, 50, 60)"
    by (simp add: ex_shape_editor_simps ex_bbox_re_rendered)
  have a4: "committed_if_labelled (heap ex_shape_editor (self_shape (dlg ex_shape_editor)))"
    by (simp add: ex_shape_editor_simps ex_annotation_def committed_if_labelled_def)
  have b1: "is_shape (dlg ex_labelled_editor)"
    by (simp add: ex_labelled_editor_simps is_shape_def)
  have b2: "self_id (dlg ex_labelled_editor) = Some 1"
    by (simp add: ex_labelled_editor_simps)
  have b3: "canvas_bbox ex_bbox
      (itemconfig (canvas ex_labelled_editor) 1 (shape_opts (dlg ex_labelled_editor))) 1
      = Some (10, 20, 50, 60)"
    by (simp add: ex_labelled_editor_simps ex_bbox_re_rendered2)
  have b4: "committed_if_labelled
      (heap ex_labelled_editor (self_shape (dlg ex_labelled_editor)))"
    by (simp add: ex_labelled_editor_simps ex_annotation_def committed_if_labelled_def)
  show ?thesis
    using commit_shape_created_and_persisted [OF a1 a2 a3 a4] a1 a2 a3 a4
      commit_shape_created_and_persisted [OF b1 b2 b3 b4] b1 b2 b3 b4
    by (simp add: ex_shape_editor_simps ex_labelled_editor_simps ex_annotation_def)
qed

subsection \<open>Committing a text editor\<close>

text \<open>
  Claim C2. The Add button of a text editor whose annotation has no canvas text element
  (\<open>text_id\<close> is \<open>None\<close>) completes; the canvas gains exactly one element, under an
  identifier no element had, which is a text at the annotation's origin \<open>(x0, y0)\<close> with
  the session's text, colour and font and the tag \<^verbatim>\<open>text\<close>; the annotation's \<open>text_id\<close>
  and identifier are that element, and its \<open>created\<close> flag is true. (A session colour
  that is \<open>None\<close> is passed on as such, which leaves the toolkit's default.)
\<close>

theorem commit_text_creates_element:
  assumes "is_text (dlg w)"
    and "text_id (heap w (self_shape (dlg w))) = None"
  shows "fst (click_add tk_bbox w) = None \<and>
     item_at (canvas w) (Suc (length (slots (canvas w)))) = None \<and>
     slots (canvas (snd (click_add tk_bbox w))) = slots (canvas w) @
       [Some \<lparr>kind = TextItem,
              coords = [x0 (heap w (self_shape (dlg w))), y0 (heap w (self_shape (dlg w)))],
              opts = no_opts\<lparr>o_text := Some (self_shape_text (dlg w)),
                             o_fill := self_text_color (dlg w),
                             o_font := Some (make_font (dlg w)),
                             o_tags := Some ''text''\<rparr>\<rparr>] \<and>
     text_id (heap (snd (click_add tk_bbox w)) (self_shape (dlg w))) =
       Some (Suc (length (slots (canvas w)))) \<and>
     shape_id (heap (snd (click_add tk_bbox w)) (self_shape (dlg w))) =
       Suc (length (slots (canvas w))) \<and>
     created (heap (snd (click_add tk_bbox w)) (self_shape (dlg w)))"
  using assms
  by (simp add: click_add_def is_shape_def is_text_def add_text_def save_text_def destroy_def
      Let_def create_text_def item_at_fresh text_opts_def apply_opts_no_opts)

theorem commit_text_creates_element_witness:
  "is_text (dlg ex_text_editor) \<and> text_id (heap ex_text_editor 0) = None \<and>
   fst (click_add ex_bbox ex_text_editor) = None \<and>
   item_at (canvas ex_text_editor) 2 = None \<and>
   slots (canvas (snd (click_add ex_bbox ex_text_editor))) =
     [Some ex_oval,
      Some \<lparr>kind = TextItem, coords = [10, 20],
            opts = \<lparr>o_text = Some ''note'', o_fill = Some ''#00ff00'',
                    o_font = Some [PyStr ''Arial'', PyInt 14, PyStr ''underline''],
                    o_tags = Some ''text'', o_dash = None, o_outline = None,
                    o_width = None\<rparr>\<rparr>] \<and>
   text_id (heap (snd (click_add ex_bbox ex_text_editor)) 0) = Some 2 \<and>
   shape_id (heap (snd (click_add ex_bbox ex_text_editor)) 0) = 2 \<and>
   created (heap (snd (click_add ex_bbox ex_text_editor)) 0)"
proof -
  have h1: "is_text (dlg ex_text_editor)"
    by (simp add: ex_text_editor_simps is_text_def)
  have h2: "text_id (heap ex_text_editor (self_shape (dlg ex_text_editor))) = None"
    by (simp add: ex_text_editor_simps ex_annotation_def)
  show ?thesis
    using commit_text_creates_element [OF h1 h2, of ex_bbox] h1 h2
    by (simp add: ex_text_editor_simps ex_annotation_def ex_canvas_def make_font_def no_opts_def
        numeral_2_eq_2)
qed

text \<open>
  Claim C3. The Add button of a text editor whose annotation already has a canvas text
  element completes and leaves the canvas as it was, so the element's text, colour and
  font are not touched, while the text fields of the session (text, font, size, colour
  and the three style flags) are written into the annotation's data; the other fields
  of the data keep their values.
\<close>

theorem commit_text_existing_keeps_canvas:
  assumes "is_text (dlg w)"
    and "text_id (heap w (self_shape (dlg w))) = Some t"
  shows "fst (click_add tk_bbox w) = None \<and>
     canvas (snd (click_add tk_bbox w)) = canvas w \<and>
     shape_data (heap (snd (click_add tk_bbox w)) (self_shape (dlg w))) =
       (shape_data (heap w (self_shape (dlg w))))
        \<lparr>data_text := self_shape_text (dlg w), font := self_font (dlg w),
         font_size := self_font_size (dlg w), text_color := self_text_color (dlg w),
         bold := self_bold (dlg w), italic := self_italic (dlg w),
         underline := self_underline (dlg w)\<rparr>"
  using assms
  by (simp add: click_add_def is_shape_def is_text_def add_text_def save_text_def destroy_def
      Let_def)

theorem commit_text_existing_keeps_canvas_witness:
  "is_text (dlg ex_text_reeditor) \<and> text_id (heap ex_text_reeditor 0) = Some 2 \<and>
   fst (click_add ex_bbox ex_text_reeditor) = None \<and>
   item_at (canvas (snd (click_add ex_bbox ex_text_reeditor))) 2 = Some ex_label \<and>
   shape_data (heap (snd (click_add ex_bbox ex_text_reeditor)) 0) =
     \<lparr>data_text = ''note'', font = ''Arial'', font_size = 14, text_color = Some ''#00ff00'',
      fill_color = Some ''#CFCFFF'', border_color = Some ''#000000'', border_width = 1,
      bold = 0, italic = 0, underline = 1\<rparr>"
proof -
  have h1: "is_text (dlg ex_text_reeditor)"
    by (simp add: ex_text_reeditor_simps ex_text_editor_simps is_text_def)
  have h2: "text_id (heap ex_text_reeditor (self_shape (dlg ex_text_reeditor))) = Some 2"
    by (simp add: ex_text_reeditor_simps ex_annotation_def)
  show ?thesis
    using commit_text_existing_keeps_canvas [OF h1 h2, of ex_bbox] h1 h2
    by (simp add: ex_text_reeditor_simps ex_text_editor_simps ex_annotation_def ex_data_def
        item_at_def)
qed

text \<open>
  Claim C10. When the Add button of a text editor creates the canvas text element, the
  annotation's \<open>text_id\<close> and identifier and the editor's identifier all become the
  identifier of the new element, which no element had before, and the texts registry
  maps that identifier to the annotation.
\<close>

theorem commit_text_rebinds_identifier:
  assumes "is_text (dlg w)"
    and "text_id (heap w (self_shape (dlg w))) = None"
  shows "(let w' = snd (click_add tk_bbox w); r = self_shape (dlg w);
              tid = Suc (length (slots (canvas w)))
          in item_at (canvas w) tid = None \<and> item_at (canvas w') tid \<noteq> None \<and>
             text_id (heap w' r) = Some tid \<and> shape_id (heap w' r) = tid \<and>
             self_id (dlg w') = Some tid \<and> texts (canvas w') tid = Some r)"
  using assms
  by (simp add: click_add_def is_shape_def is_text_def add_text_def save_text_def destroy_def
      Let_def create_text_def item_at_def)

theorem commit_text_rebinds_identifier_witness:
  "is_text (dlg ex_text_editor) \<and> text_id (heap ex_text_editor 0) = None \<and>
   item_at (canvas ex_text_editor) 2 = None \<and>
   item_at (canvas (snd (click_add ex_bbox ex_text_editor))) 2 \<noteq> None \<and>
   text_id (heap (snd (click_add ex_bbox ex_text_editor)) 0) = Some 2 \<and>
   shape_id (heap (snd (click_add ex_bbox ex_text_editor)) 0) = 2 \<and>
   self_id (dlg (snd (click_add ex_bbox ex_text_editor))) = Some 2 \<and>
   texts (canvas (snd (click_add ex_bbox ex_text_editor))) 2 = Some 0"
proof -
  have h1: "is_text (dlg ex_text_editor)"
    by (simp add: ex_text_editor_simps is_text_def)
  have h2: "text_id (heap ex_text_editor (self_shape (dlg ex_text_editor))) = None"
    by (simp add: ex_text_editor_simps ex_annotation_def)
  show ?thesis
    using commit_text_rebinds_identifier [OF h1 h2, of ex_bbox] h1 h2
    by (simp add: ex_text_editor_simps ex_annotation_def ex_canvas_def Let_def numeral_2_eq_2)
qed

subsection \<open>The label anchor of a shape\<close>

text \<open>
  Claim C9. With \<open>(bx0, by0, bx1, by1)\<close> the bounding box of the re-rendered shape and
  \<open>s\<close> the font size of the session, the label that the Add button of a shape editor
  creates sits at \<open>x = (bx0 + bx1) / 2\<close>, \<open>y = by0 + 1.5 * s\<close>; the witness is the
  bounding box (10, 20, 50, 60) with size 10, whose anchor is (30, 35). When the label
  exists already the anchor is computed and not used. Python computes the anchor in
  floats; it is exact there for the pixel integers and sizes the toolkit and the form
  supply, and the model computes in the rationals.
\<close>

theorem commit_shape_label_anchor:
  assumes "is_shape (dlg w)"
    and "self_id (dlg w) = Some i"
    and "canvas_bbox tk_bbox (itemconfig (canvas w) i (shape_opts (dlg w))) i
           = Some (bx0, by0, bx1, by1)"
    and "text_id (heap w (self_shape (dlg w))) = None"
  shows "map_option coords
           (item_at (canvas (snd (click_add tk_bbox w))) (Suc (length (slots (canvas w))))) =
         Some [of_int (bx0 + bx1) / 2, of_int by0 + (3 / 2) * of_int (self_font_size (dlg w))]"
  using assms
  by (simp add: click_add_def add_shape_def save_text_def save_shape_def destroy_def Let_def
      create_text_def item_at_append_new length_slots_itemconfig apply_opts_no_opts)

theorem commit_shape_label_anchor_witness:
  "is_shape (dlg ex_shape_editor) \<and> self_id (dlg ex_shape_editor) = Some 1 \<and>
   canvas_bbox ex_bbox
     (itemconfig (canvas ex_shape_editor) 1 (shape_opts (dlg ex_shape_editor))) 1
     = Some (10, 20, 50, 60) \<and>
   self_font_size (dlg ex_shape_editor) = 10 \<and>
   text_id (heap ex_shape_editor (self_shape (dlg ex_shape_editor))) = None \<and>
   map_option coords (item_at (canvas (snd (click_add ex_bbox ex_shape_editor))) 2) =
     Some [30, 35]"
proof -
  have h1: "is_shape (dlg ex_shape_editor)"
    by (simp add: ex_shape_editor_simps is_shape_def)
  have h2: "self_id (dlg ex_shape_editor) = Some 1"
    by (simp add: ex_shape_editor_simps)
  have h3: "canvas_bbox ex_bbox
      (itemconfig (canvas ex_shape_editor) 1 (shape_opts (dlg ex_shape_editor))) 1
      = Some (10, 20, 50, 60)"
    by (simp add: ex_shape_editor_simps ex_bbox_re_rendered)
  have h4: "text_id (heap ex_shape_editor (self_shape (dlg ex_shape_editor))) = None"
    by (simp add: ex_shape_editor_simps ex_annotation_def)
  show ?thesis
    using commit_shape_label_anchor [OF h1 h2 h3 h4] h1 h2 h3 h4
    by (simp add: ex_shape_editor_simps ex_canvas_def numeral_2_eq_2)
qed

subsection \<open>Cancelling\<close>

text \<open>
  Claim C4. The Cancel button of a shape editor whose annotation is registered under the
  editor's identifier and has \<open>created = False\<close> completes; afterwards the canvas has no
  element under that identifier, the shapes registry has no entry for it, and the editor
  is closed. (The call touches no other element: a label named by \<open>text_id\<close> is not
  deleted, and an annotation this editor has not committed has none.)
\<close>

theorem cancel_uncommitted_shape_removes:
  assumes "is_shape (dlg w)"
    and "self_id (dlg w) = Some i"
    and "shapes (canvas w) i = Some (self_shape (dlg w))"
    and "\<not> created (heap w (self_shape (dlg w)))"
  shows "fst (cancel w) = None \<and>
         item_at (canvas (snd (cancel w))) i = None \<and>
         shapes (canvas (snd (cancel w))) i = None \<and>
         \<not> is_open (dlg (snd (cancel w)))"
  using assms
  by (simp add: cancel_def Let_def pop_def destroy_def shapes_canvas_delete
      item_at_canvas_delete item_at_shapes_update)

theorem cancel_uncommitted_shape_removes_witness:
  "is_shape (dlg ex_shape_editor) \<and> self_id (dlg ex_shape_editor) = Some 1 \<and>
   shapes (canvas ex_shape_editor) 1 = Some 0 \<and> item_at (canvas ex_shape_editor) 1 = Some ex_oval \<and>
   \<not> created (heap ex_shape_editor 0) \<and>
   fst (cancel ex_shape_editor) = None \<and>
   item_at (canvas (snd (cancel ex_shape_editor))) 1 = None \<and>
   shapes (canvas (snd (cancel ex_shape_editor))) 1 = None \<and>
   \<not> is_open (dlg (snd (cancel ex_shape_editor)))"
proof -
  have h1: "is_shape (dlg ex_shape_editor)"
    by (simp add: ex_shape_editor_simps is_shape_def)
  have h2: "self_id (dlg ex_shape_editor) = Some 1"
    by (simp add: ex_shape_editor_simps)
  have h3: "shapes (canvas ex_shape_editor) 1 = Some (self_shape (dlg ex_shape_editor))"
    by (simp add: ex_shape_editor_simps ex_canvas_def)
  have h4: "\<not> created (heap ex_shape_editor (self_shape (dlg ex_shape_editor)))"
    by (simp add: ex_shape_editor_simps ex_annotation_def)
  show ?thesis
    using cancel_uncommitted_shape_removes [OF h1 h2 h3 h4] h1 h2 h3 h4
    by (simp add: ex_shape_editor_simps ex_canvas_def item_at_def)
qed

text \<open>
  Claim C5. The Cancel button of a shape editor whose annotation is registered under the
  editor's identifier and has \<open>created = True\<close>, and of every text editor, completes and
  leaves every annotation object (so also its data), the canvas elements and both
  registries as they were; of the editor only the window changes, which is closed.
\<close>

theorem cancel_keeps_everything:
  assumes "(is_shape (dlg w) \<and> self_id (dlg w) = Some i \<and>
            shapes (canvas w) i = Some (self_shape (dlg w)) \<and>
            created (heap w (self_shape (dlg w)))) \<or> is_text (dlg w)"
  shows "fst (cancel w) = None \<and> heap (snd (cancel w)) = heap w \<and>
         canvas (snd (cancel w)) = canvas w \<and>
         dlg (snd (cancel w)) = (dlg w)\<lparr>is_open := False\<rparr>"
  using assms
  by (auto simp add: cancel_def destroy_def is_shape_def is_text_def)

theorem cancel_keeps_everything_witness:
  "(is_shape (dlg ex_labelled_editor) \<and> self_id (dlg ex_labelled_editor) = Some 1 \<and>
    shapes (canvas ex_labelled_editor) 1 = Some (self_shape (dlg ex_labelled_editor)) \<and>
    created (heap ex_labelled_editor (self_shape (dlg ex_labelled_editor)))) \<and>
   fst (cancel ex_labelled_editor) = None \<and>
   heap (snd (cancel ex_labelled_editor)) = heap ex_labelled_editor \<and>
   canvas (snd (cancel ex_labelled_editor)) = canvas ex_labelled_editor \<and>
   is_text (dlg ex_text_editor) \<and>
   fst (cancel ex_text_editor) = None \<and>
   heap (snd (cancel ex_text_editor)) = heap ex_text_editor \<and>
   canvas (snd (cancel ex_text_editor)) = canvas ex_text_editor"
proof -
  have h1: "is_shape (dlg ex_labelled_editor) \<and> self_id (dlg ex_labelled_editor) = Some 1 \<and>
    shapes (canvas ex_labelled_editor) 1 = Some (self_shape (dlg ex_labelled_editor)) \<and>
    created (heap ex_labelled_editor (self_shape (dlg ex_labelled_editor)))"
    by (simp add: ex_labelled_editor_simps ex_canvas_def ex_annotation_def is_shape_def)
  have h2: "is_text (dlg ex_text_editor)"
    by (simp add: ex_text_editor_simps is_text_def)
  show ?thesis
    using cancel_keeps_everything [of ex_labelled_editor 1] h1
      cancel_keeps_everything [of ex_text_editor 0] h2
    by simp
qed

subsection \<open>The edit session before the commit\<close>

text \<open>
  Claim C6. No sequence of field edits and colour prompts, whatever the prompts answer
  and also where a callback raises, changes an annotation object or the canvas: for an
  editor opened on any annotation, the data of every annotation is after the edits what
  it was before the editor opened. The only callbacks that write an annotation are the
  two behind the Add button, \<open>add_shape\<close> and \<open>add_text\<close>, through \<open>save_text\<close> and
  \<open>save_shape\<close>.
\<close>

theorem edits_never_reach_annotation:
  "heap (run_edits es w) = heap w \<and> canvas (run_edits es w) = canvas w \<and>
   shape_data (heap (run_edits es (ShapeDialog_init ann r h c)) r') = shape_data (h r')"
  by (simp add: heap_run_edits canvas_run_edits ShapeDialog_init_def Let_def)

text \<open>
  Claim C7, as amended. When the colour prompt is cancelled, \<^verbatim>\<open>askcolor\<close> returns no
  colour and each of the three callbacks stores that result: the session's colour field
  becomes \<open>None\<close>. Nothing else of the editor changes; the swatch keeps its colour,
  since a \<^verbatim>\<open>None\<close> option is dropped.
\<close>

theorem cancelled_prompt_clears_color:
  "dlg (snd (choose_text_color None w)) = (dlg w)\<lparr>self_text_color := None\<rparr> \<and>
   dlg (snd (choose_fill_color None w)) = (dlg w)\<lparr>self_fill_color := None\<rparr> \<and>
   dlg (snd (choose_border_color None w)) = (dlg w)\<lparr>self_border_color := None\<rparr>"
  by (simp add: choose_text_color_def choose_fill_color_def choose_border_color_def Let_def
      label_config_None split: option.splits)

text \<open>
  Claim C7 as it is written fails: in the example shape editor each of the three colour
  fields holds a colour before the prompt and none after a cancelled prompt.
\<close>

theorem cancelled_prompt_counterexample:
  "self_text_color (dlg ex_shape_editor) = Some ''#000000'' \<and>
   self_text_color (dlg (snd (choose_text_color None ex_shape_editor))) = None \<and>
   self_fill_color (dlg ex_shape_editor) = Some ''#ff0000'' \<and>
   self_fill_color (dlg (snd (choose_fill_color None ex_shape_editor))) = None \<and>
   self_border_color (dlg ex_shape_editor) = Some ''#000000'' \<and>
   self_border_color (dlg (snd (choose_border_color None ex_shape_editor))) = None"
  by (simp add: choose_text_color_def choose_fill_color_def choose_border_color_def Let_def
      ex_shape_editor_simps)

subsection \<open>The font descriptor\<close>

text \<open>
  Claim C8. \<open>make_font\<close> returns the descriptor of the specification: the family and
  the size, followed by bold, italic, underline in this order, each exactly when its flag
  is 1; Arial at size 12 with bold and underline set gives
  \<^verbatim>\<open>["Arial", 12, "bold", "underline"]\<close>.
\<close>

theorem make_font_descriptor:
  "make_font d = font_descriptor (self_font d) (self_font_size d) (self_bold d)
                   (self_italic d) (self_underline d) \<and>
   make_font (d\<lparr>self_font := ''Arial'', self_font_size := 12, self_bold := 1,
                self_italic := 0, self_underline := 1\<rparr>) =
     [PyStr ''Arial'', PyInt 12, PyStr ''bold'', PyStr ''underline'']"
  by (simp add: make_font_def font_descriptor_def Let_def)

end
